theory Spec2Isabelle
  imports Main
begin

section \<open>Data model\<close>

text \<open>
  The program is one Streamlit script, \<^verbatim>\<open>app.py\<close>. Streamlit runs the script from top
  to bottom on every user interaction; the only state that survives a run is
  \<^verbatim>\<open>st.session_state\<close>. A run is modelled as a function from the session state, the
  interaction and the answers of the outside world (the market-data provider, the HTTP
  endpoint, the CSV parser, the plotting library) to the new session state and the list
  of elements the run puts on the page.

  Values held in a table cell: what \<^verbatim>\<open>response.json()\<close> can return, the missing-value
  marker \<^verbatim>\<open>NaN\<close> that the table constructor fills in, and time stamps. A finite float
  is carried as significand and binary exponent, \<open>PInf\<close> is an infinity with its sign, and
  \<open>FloatOfInt n\<close> is the float that the conversion of the integer \<open>n\<close> to a float yields
  (the nearest one, so \<open>2^53 + 1\<close> and \<open>2^53\<close> give the same float); no function below
  computes with a float.
\<close>

datatype pyval =
    PNone
  | NaN
  | PBool bool
  | PInt int
  | PFloat int int
  | PInf bool
  | FloatOfInt int
  | PStr string
  | Timestamp int
  | PList "pyval list"
  | PDict "(string \<times> pyval) list"

text \<open>The column types of a pandas table that the script can tell apart.\<close>

datatype dtype =
    Int64 | UInt64 | Float64 | Bool | Datetime64 | DatetimeTZ | Timedelta64 | Category | Object

datatype column = Column (col_name: string) (col_dtype: dtype) (col_values: "pyval list")

text \<open>
  A table keeps its row index apart from its columns, so a table can have rows and no
  column (\<^verbatim>\<open>pd.DataFrame([{}])\<close> has shape (1, 0)).
\<close>

datatype dataframe = DataFrame (nrows: nat) (cols: "column list")

definition columns :: "dataframe \<Rightarrow> string list" where
  "columns d = map col_name (cols d)"

text \<open>\<^verbatim>\<open>df.empty\<close>: true when any axis has length 0.\<close>

definition empty :: "dataframe \<Rightarrow> bool" where
  "empty d = (nrows d = 0 \<or> cols d = [])"

text \<open>
  \<^verbatim>\<open>df.select_dtypes(include=[...])\<close> keeps the columns whose type falls under one of
  the named selectors, in the table's order. The script uses three selectors:
  \<^verbatim>\<open>'number'\<close> (every subtype of numpy's number: the integers, the floats and, as a subtype
  of the signed integers, time deltas; booleans are not numbers),
  \<^verbatim>\<open>'datetime64'\<close> (time stamps without a time zone) and \<^verbatim>\<open>'object'\<close>.
\<close>

fun dtype_matches :: "string \<Rightarrow> dtype \<Rightarrow> bool" where
  "dtype_matches sel t =
     (if sel = ''number'' then t \<in> {Int64, UInt64, Float64, Timedelta64}
      else if sel = ''datetime64'' then t = Datetime64
      else if sel = ''object'' then t = Object
      else False)"

declare dtype_matches.simps [simp del]

definition select_dtypes :: "string list \<Rightarrow> dataframe \<Rightarrow> dataframe" where
  "select_dtypes include d =
     DataFrame (nrows d) (filter (\<lambda>c. \<exists>sel \<in> set include. dtype_matches sel (col_dtype c)) (cols d))"

datatype exn = KeyError string | Exception string

text \<open>\<^verbatim>\<open>df[name]\<close>: the column of that name, \<^verbatim>\<open>KeyError\<close> when there is none.\<close>

definition getitem :: "dataframe \<Rightarrow> string \<Rightarrow> exn + column" where
  "getitem d k =
     (case filter (\<lambda>c. col_name c = k) (cols d) of
        [] \<Rightarrow> Inl (KeyError k)
      | c # _ \<Rightarrow> Inr c)"

text \<open>\<^verbatim>\<open>df[names]\<close> with a list of names: those columns in the order asked for.\<close>

fun getitems :: "dataframe \<Rightarrow> string list \<Rightarrow> exn + column list" where
  "getitems d [] = Inr []"
| "getitems d (k # ks) =
     (case getitem d k of
        Inl e \<Rightarrow> Inl e
      | Inr c \<Rightarrow> (case getitems d ks of Inl e \<Rightarrow> Inl e | Inr cs \<Rightarrow> Inr (c # cs)))"

section \<open>Session state and page elements\<close>

record session =
  df :: "dataframe option"
  data_source :: "string option"
  ticker_data :: "(string \<times> string) list"

text \<open>Lines 17 to 19: the state of a fresh session.\<close>

definition init_session :: session where
  "init_session = \<lparr>df = None, data_source = None, ticker_data = []\<rparr>"

text \<open>
  What a run shows. A plotly trace or figure is recorded by the columns it is built
  from, named as the script names them.
\<close>

datatype trace =
    Candlestick (trace_x: string) string string string string
  | Scatter (trace_x: string) string string

datatype figure =
    GoFigure trace string string
  | PxLine "string option" "string option" "string option"
  | PxBar "string option" "string option" "string option"
  | PxScatter "string option" "string option" "string option"
  | PxArea "string option" "string option" "string option"
  | PxHistogram string
  | PxBox string
  | PxImshow "string list"

datatype element =
    StError string
  | StWarning string
  | StInfo string
  | StSuccess string
  | Markdown string
  | PlotlyChart figure
  | StDataframe "string list"
  | StDescribe "string list"
  | DownloadButton dataframe
  | Welcome

section \<open>The chart tab\<close>

text \<open>Lines 224 and 225, and the object columns of lines 296 and 304.\<close>

definition numeric_cols :: "dataframe \<Rightarrow> string list" where
  "numeric_cols d = columns (select_dtypes [''number''] d)"

definition datetime_cols :: "dataframe \<Rightarrow> string list" where
  "datetime_cols d = columns (select_dtypes [''datetime64''] d)"

definition object_cols :: "dataframe \<Rightarrow> string list" where
  "object_cols d = columns (select_dtypes [''object''] d)"

text \<open>
  Lines 231 to 250: the trace of the price chart. Each \<^verbatim>\<open>df['...']\<close> is a lookup
  that raises \<^verbatim>\<open>KeyError\<close> on a missing column; the lookups happen in the order of the
  keyword arguments.
\<close>

definition price_trace :: "dataframe \<Rightarrow> exn + trace" where
  "price_trace d =
     (if list_all (\<lambda>c. c \<in> set (columns d)) [''Open'', ''High'', ''Low'', ''Close'']
      then (case getitems d [''Date'', ''Open'', ''High'', ''Low'', ''Close''] of
              Inl e \<Rightarrow> Inl e
            | Inr _ \<Rightarrow> Inr (Candlestick ''Date'' ''Open'' ''High'' ''Low'' ''Close''))
      else (case getitems d [''Date'', ''Close''] of
              Inl e \<Rightarrow> Inl e
            | Inr _ \<Rightarrow> Inr (Scatter ''Date'' ''Close'' ''lines'')))"

text \<open>
  Lines 263 to 274: the volume chart. \<^verbatim>\<open>px.bar(df, x='Date', y='Volume')\<close> raises when
  the table has no column of that name.
\<close>

definition volume_chart :: "dataframe \<Rightarrow> exn + element list" where
  "volume_chart d =
     (if ''Volume'' \<in> set (columns d)
      then (case getitems d [''Date'', ''Volume''] of
              Inl e \<Rightarrow> Inl e
            | Inr _ \<Rightarrow> Inr [Markdown ''#### Trading Volume'',
                            PlotlyChart (PxBar (Some ''Date'') (Some ''Volume'') None)])
      else Inr [])"

text \<open>Lines 229 to 274: the branch for market data.\<close>

definition price_charts :: "dataframe \<Rightarrow> exn + element list" where
  "price_charts d =
     (case price_trace d of
        Inl e \<Rightarrow> Inl e
      | Inr t \<Rightarrow>
          (case volume_chart d of
             Inl e \<Rightarrow> Inl e
           | Inr vol \<Rightarrow>
               Inr ([Markdown ''#### Stock Price Over Time'',
                     PlotlyChart (GoFigure t ''Date'' ''Price (USD)'')] @ vol)))"

text \<open>
  The front end. Each \<^verbatim>\<open>st.selectbox\<close> is called without an index, so it shows the
  first option until the user picks another one; with no option to show it returns
  \<^verbatim>\<open>None\<close>. The user's picks are fields of \<open>ui\<close> (\<open>None\<close>: no pick yet). The last field is
  Streamlit's answer when the data tab asks it to draw the table: \<open>Some e\<close> when
  \<^verbatim>\<open>st.dataframe\<close> raises an exception with text \<open>e\<close> (it does on a cell it cannot
  serialise), which no handler of the script catches.
\<close>

record ui =
  column_selector :: "string list option"
  chart_type :: "string option"
  y_axis :: "string option"
  x_axis :: "string option"
  color_by :: "string option"
  dist_column :: "string option"
  dataframe_raises :: "string option"

definition no_choice :: ui where
  "no_choice = \<lparr>column_selector = None, chart_type = None, y_axis = None, x_axis = None,
                 color_by = None, dist_column = None, dataframe_raises = None\<rparr>"

definition selectbox :: "string list \<Rightarrow> string option \<Rightarrow> string option" where
  "selectbox opts choice =
     (case choice of
        Some c \<Rightarrow> if c \<in> set opts then Some c else (case opts of [] \<Rightarrow> None | x # _ \<Rightarrow> Some x)
      | None \<Rightarrow> (case opts of [] \<Rightarrow> None | x # _ \<Rightarrow> Some x))"

text \<open>Lines 296 and 304: the options of the x axis and of the colour.\<close>

definition x_options :: "dataframe \<Rightarrow> string list" where
  "x_options d = datetime_cols d @ numeric_cols d @ object_cols d"

definition color_options :: "dataframe \<Rightarrow> string list" where
  "color_options d = ''None'' # object_cols d"

text \<open>
  Lines 278 to 344: the generic chart builder. \<open>px_raises\<close> is the answer of the plotting
  library: \<open>Some e\<close> when the call of lines 313 to 339 raises an exception with text \<open>e\<close>,
  which the script catches and reports.
\<close>

definition generic_chart :: "ui \<Rightarrow> string option \<Rightarrow> dataframe \<Rightarrow> element list" where
  "generic_chart u px_raises d =
     (if numeric_cols d \<noteq> [] then
        (let kind = selectbox [''Line'', ''Bar'', ''Scatter'', ''Area''] (chart_type u);
             y_column = selectbox (numeric_cols d) (y_axis u);
             x_column = selectbox (x_options d) (x_axis u);
             colour = selectbox (color_options d) (color_by u);
             color = (if colour = Some ''None'' then None else colour)
         in case px_raises of
              Some e \<Rightarrow> [StError (''Error creating chart: '' @ e)]
            | None \<Rightarrow>
                [PlotlyChart
                   (if kind = Some ''Line'' then PxLine x_column y_column color
                    else if kind = Some ''Bar'' then PxBar x_column y_column color
                    else if kind = Some ''Scatter'' then PxScatter x_column y_column color
                    else PxArea x_column y_column color)])
      else [StInfo ''No numeric columns available for visualization''])"

text \<open>Lines 228 to 344: the chart tab chooses between the two branches.\<close>

definition tab2 :: "ui \<Rightarrow> string option \<Rightarrow> session \<Rightarrow> dataframe \<Rightarrow> exn + element list" where
  "tab2 u px_raises s d =
     (if data_source s = Some ''yFinance'' \<and> ''Close'' \<in> set (columns d)
      then price_charts d
      else Inr (generic_chart u px_raises d))"

section \<open>The data tab and the statistics tab\<close>

text \<open>
  Line 193: \<^verbatim>\<open>st.multiselect\<close> with the first ten columns as its default.
\<close>

definition multiselect :: "string list \<Rightarrow> string list \<Rightarrow> string list option \<Rightarrow> string list" where
  "multiselect opts dflt choice =
     (case choice of None \<Rightarrow> dflt | Some picked \<Rightarrow> filter (\<lambda>c. c \<in> set opts) picked)"

definition selected_columns :: "ui \<Rightarrow> dataframe \<Rightarrow> string list" where
  "selected_columns u d =
     multiselect (columns d) (take (min 10 (length (columns d))) (columns d)) (column_selector u)"

text \<open>
  Lines 188 to 218. The download button carries \<^verbatim>\<open>df[selected_columns].to_csv(index=False)\<close>;
  the element records the table that is serialised.
\<close>

definition tab1 :: "ui \<Rightarrow> dataframe \<Rightarrow> exn + element list" where
  "tab1 u d =
     (if selected_columns u d \<noteq> [] then
        (case getitems d (selected_columns u d) of
           Inl e \<Rightarrow> Inl e
         | Inr cs \<Rightarrow>
             (case dataframe_raises u of
                Some e \<Rightarrow> Inl (Exception e)
              | None \<Rightarrow>
                  Inr [StDataframe (selected_columns u d),
                       DownloadButton (DataFrame (nrows d) cs)]))
      else Inr [StWarning ''Please select at least one column to display''])"

text \<open>
  Lines 346 to 407. \<^verbatim>\<open>describe()\<close> and \<^verbatim>\<open>corr()\<close> are pandas' own; the elements record
  the columns they are applied to.
\<close>

definition tab3 :: "ui \<Rightarrow> dataframe \<Rightarrow> element list" where
  "tab3 u d =
     (if numeric_cols d \<noteq> [] then
        [Markdown ''#### Descriptive Statistics'',
         StDescribe (numeric_cols d),
         Markdown ''#### Distributions''] @
        (case selectbox (numeric_cols d) (dist_column u) of
           None \<Rightarrow> []
         | Some selected_col \<Rightarrow>
             [PlotlyChart (PxHistogram selected_col), PlotlyChart (PxBox selected_col)]) @
        (if length (numeric_cols d) > 1
         then [Markdown ''#### Correlation Matrix'', PlotlyChart (PxImshow (numeric_cols d))]
         else [])
      else [StInfo ''No numeric columns available for statistics''])"

section \<open>Ingestion\<close>

text \<open>Decimal numerals, for the f-strings that print \<^verbatim>\<open>len(df)\<close>.\<close>

fun string_of_nat :: "nat \<Rightarrow> string" where
  "string_of_nat n =
     (if n < 10 then [char_of (48 + n)]
      else string_of_nat (n div 10) @ [char_of (48 + n mod 10)])"

text \<open>
  Lines 23 to 32. The provider's answer is the outcome of the body of the \<^verbatim>\<open>try\<close> block:
  it raises, or it yields the table after \<^verbatim>\<open>reset_index\<close>. The function is memoised by
  Streamlit for an hour; an outcome stands for what the call returns, fresh or cached.
\<close>

datatype yf_outcome = YfRaises string | YfFrame dataframe

definition fetch_yfinance_data :: "string \<Rightarrow> yf_outcome \<Rightarrow> dataframe option \<times> element list" where
  "fetch_yfinance_data ticker outcome =
     (case outcome of
        YfRaises e \<Rightarrow> (None, [StError (''Error fetching data for '' @ ticker @ '': '' @ e)])
      | YfFrame d \<Rightarrow> (Some d, []))"

text \<open>
  The table constructor \<^verbatim>\<open>pd.DataFrame(data)\<close> on a decoded JSON list. For a list of dicts
  (the empty list included) it is modelled as pandas documents it: one row per dict; the
  columns are the keys in the order of their first appearance; a key that a dict lacks
  gives \<^verbatim>\<open>NaN\<close> in its row; each column is then converted to the type pandas infers for
  its cells. For any other list pandas decides by the shapes of the elements; that answer
  is not modelled and comes with the decoded body, as part of the endpoint's answer.
\<close>

fun is_dict :: "pyval \<Rightarrow> bool" where
  "is_dict (PDict _) = True"
| "is_dict _ = False"

fun is_list :: "pyval \<Rightarrow> bool" where
  "is_list (PList _) = True"
| "is_list _ = False"

fun items :: "pyval \<Rightarrow> (string \<times> pyval) list" where
  "items (PDict kvs) = kvs"
| "items _ = []"

fun elems :: "pyval \<Rightarrow> pyval list" where
  "elems (PList xs) = xs"
| "elems _ = []"

definition keys :: "pyval \<Rightarrow> string list" where
  "keys v = map fst (items v)"

text \<open>
  The conversion of one column (pandas' \<^verbatim>\<open>maybe_convert_objects\<close>) on the cells that a
  decoded JSON body can give. It reads the cells in order:
  \<^item> a string, a list or a dict leaves the column as Python objects, and so does a
    boolean beside anything that is not a boolean;
  \<^item> an integer read before any \<^verbatim>\<open>None\<close> is range-checked: one outside the range from
    \<open>-2^63\<close> to \<open>2^64 - 1\<close>, or a negative one beside one above \<open>2^63 - 1\<close>, leaves the
    column as Python objects;
  \<^item> otherwise numbers with a missing value (\<^verbatim>\<open>None\<close> or \<^verbatim>\<open>NaN\<close>) or with a float
    become floats, integers alone become 64-bit integers, unsigned when one is above
    \<open>2^63 - 1\<close>, and a column of \<^verbatim>\<open>None\<close> alone stays as it is.
  In a float column an integer is stored as its float and \<^verbatim>\<open>None\<close> as \<^verbatim>\<open>NaN\<close>; in every
  other column the cells are stored as decoded. A decoded body holds no time stamp; the
  conversion is applied to the cells of decoded bodies only.
\<close>

fun is_object :: "pyval \<Rightarrow> bool" where
  "is_object (PStr _) = True"
| "is_object (PList _) = True"
| "is_object (PDict _) = True"
| "is_object (Timestamp _) = True"
| "is_object _ = False"

fun is_bool :: "pyval \<Rightarrow> bool" where
  "is_bool (PBool _) = True"
| "is_bool _ = False"

fun is_int :: "pyval \<Rightarrow> bool" where
  "is_int (PInt _) = True"
| "is_int _ = False"

fun is_float :: "pyval \<Rightarrow> bool" where
  "is_float (PFloat _ _) = True"
| "is_float (PInf _) = True"
| "is_float (FloatOfInt _) = True"
| "is_float _ = False"

fun is_nan :: "pyval \<Rightarrow> bool" where
  "is_nan NaN = True"
| "is_nan _ = False"

fun is_missing :: "pyval \<Rightarrow> bool" where
  "is_missing NaN = True"
| "is_missing PNone = True"
| "is_missing _ = False"

fun checked_ints :: "pyval list \<Rightarrow> int list" where
  "checked_ints [] = []"
| "checked_ints (PNone # vs) = []"
| "checked_ints (PInt n # vs) = n # checked_ints vs"
| "checked_ints (v # vs) = checked_ints vs"

definition int_conflict :: "int list \<Rightarrow> bool" where
  "int_conflict ns =
     (list_ex (\<lambda>n. n < - (2 ^ 63) \<or> 2 ^ 64 \<le> n) ns \<or>
      (list_ex (\<lambda>n. n < 0) ns \<and> list_ex (\<lambda>n. 2 ^ 63 \<le> n) ns))"

definition infer_dtype :: "pyval list \<Rightarrow> dtype" where
  "infer_dtype vs =
     (if list_ex is_object vs then Object
      else if list_ex is_bool vs then (if list_all is_bool vs then Bool else Object)
      else if int_conflict (checked_ints vs) then Object
      else if list_ex is_missing vs then
        (if list_ex is_float vs \<or> list_ex is_int vs \<or> list_ex is_nan vs then Float64
         else Object)
      else if list_ex is_float vs then Float64
      else if list_ex is_int vs then
        (if list_ex (\<lambda>n. 2 ^ 63 \<le> n) (checked_ints vs) then UInt64 else Int64)
      else Object)"

fun store :: "dtype \<Rightarrow> pyval \<Rightarrow> pyval" where
  "store Float64 (PInt n) = FloatOfInt n"
| "store Float64 PNone = NaN"
| "store t v = v"

definition unique_keys :: "string list \<Rightarrow> string list" where
  "unique_keys ks = rev (remdups (rev ks))"

definition dict_column :: "pyval list \<Rightarrow> string \<Rightarrow> column" where
  "dict_column rows k =
     (let vs = map (\<lambda>r. case map_of (items r) k of None \<Rightarrow> NaN | Some v \<Rightarrow> v) rows;
          t = infer_dtype vs
      in Column k t (map (store t) vs))"

definition pd_DataFrame :: "exn + dataframe \<Rightarrow> pyval list \<Rightarrow> exn + dataframe" where
  "pd_DataFrame other data =
     (if list_all is_dict data
      then Inr (DataFrame (length data)
                  (map (dict_column data) (unique_keys (concat (map keys data)))))
      else other)"

text \<open>
  Lines 36 to 58. The answer of the endpoint is the outcome of lines 39 to 41: a time-out,
  another exception of the \<^verbatim>\<open>requests\<close> library (a connection failure, a status that
  \<^verbatim>\<open>raise_for_status\<close> rejects, a body that is not JSON), an exception of another kind,
  or the decoded body. With the body \<open>Json data other\<close> carries \<open>other\<close>, what the table
  constructor returns for \<open>data\<close> when \<open>data\<close> is a list that is not a list of dicts: a
  table, or the exception it raises. The function catches the first two outcomes and
  reports them; every other exception, the constructor's included, leaves the function.
\<close>

datatype http_outcome =
    Timeout
  | RequestException string
  | OtherException string
  | Json pyval "exn + dataframe"

definition fetch_api_data :: "http_outcome \<Rightarrow> exn + (dataframe option \<times> element list)" where
  "fetch_api_data outcome =
     (case outcome of
        Timeout \<Rightarrow> Inr (None, [StError ''Request timed out. Please try again.''])
      | RequestException e \<Rightarrow> Inr (None, [StError (''API error: '' @ e)])
      | OtherException e \<Rightarrow> Inl (Exception e)
      | Json data other \<Rightarrow>
          if is_list data then
            (case pd_DataFrame other (elems data) of
               Inl e \<Rightarrow> Inl e
             | Inr d \<Rightarrow> Inr (Some d, []))
          else if is_dict data then
            (case pd_DataFrame other [data] of
               Inl e \<Rightarrow> Inl e
             | Inr d \<Rightarrow> Inr (Some d, []))
          else Inr (None, [StError ''API response format not supported'']))"

text \<open>Lines 60 to 65.\<close>

definition validate_dataframe :: "dataframe option \<Rightarrow> bool \<times> element list" where
  "validate_dataframe d =
     (case d of
        None \<Rightarrow> (False, [StWarning ''No data available to display.''])
      | Some t \<Rightarrow>
          if empty t then (False, [StWarning ''No data available to display.''])
          else (True, []))"

section \<open>The sidebar\<close>

text \<open>
  Lines 80 to 149. The radio button selects one of three inputs; \<open>sidebar\<close> holds what
  the user entered there and, when the run does fetch or parse, the outside world's answer:
  \<^item> \<open>YFinance ticker period o\<close>: \<open>ticker\<close> is \<^verbatim>\<open>ticker.upper()\<close>, the text of the input box
    as Python's own \<^verbatim>\<open>str.upper\<close> returns it (the text as typed appears in the caption
    of the spinner only, which is left out), and \<open>o\<close> is \<open>None\<close> when the button was not
    pressed;
  \<^item> \<open>ApiLink url o\<close>: likewise;
  \<^item> \<open>CsvUpload f\<close>: \<open>f\<close> is \<open>None\<close> when no file is in the uploader, and otherwise the
    file's name with the outcome of \<^verbatim>\<open>pd.read_csv\<close> (it raises, or it yields a table).
\<close>

datatype csv_outcome = CsvRaises string | CsvFrame dataframe

datatype sidebar =
    YFinance string string "yf_outcome option"
  | ApiLink string "http_outcome option"
  | CsvUpload "(string \<times> csv_outcome) option"

text \<open>Lines 97 to 107.\<close>

definition yfinance_fetch :: "string \<Rightarrow> string \<Rightarrow> yf_outcome \<Rightarrow> session \<Rightarrow> session \<times> element list" where
  "yfinance_fetch ticker period outcome s =
     (case fetch_yfinance_data ticker outcome of
        (Some d, msgs) \<Rightarrow>
          if \<not> empty d
          then (s\<lparr>df := Some d, data_source := Some ''yFinance'',
                  ticker_data := [(''ticker'', ticker), (''period'', period)]\<rparr>,
                msgs @ [StSuccess (''Loaded '' @ string_of_nat (nrows d) @ '' records'')])
          else (s, msgs)
      | (None, msgs) \<Rightarrow> (s, msgs))"

text \<open>Lines 120 to 129.\<close>

definition api_fetch :: "string \<Rightarrow> http_outcome \<Rightarrow> session \<Rightarrow> exn + (session \<times> element list)" where
  "api_fetch api_url outcome s =
     (if api_url \<noteq> [] then
        (case fetch_api_data outcome of
           Inl e \<Rightarrow> Inl e
         | Inr (Some d, msgs) \<Rightarrow>
             if \<not> empty d
             then Inr (s\<lparr>df := Some d, data_source := Some ''API''\<rparr>,
                       msgs @ [StSuccess (''Loaded '' @ string_of_nat (nrows d) @ '' records'')])
             else Inr (s, msgs)
         | Inr (None, msgs) \<Rightarrow> Inr (s, msgs))
      else Inr (s, [StWarning ''Please enter an API URL'']))"

text \<open>Lines 142 to 149.\<close>

definition csv_upload :: "string \<Rightarrow> csv_outcome \<Rightarrow> session \<Rightarrow> session \<times> element list" where
  "csv_upload file_name outcome s =
     (case outcome of
        CsvFrame d \<Rightarrow>
          (s\<lparr>df := Some d, data_source := Some ''CSV''\<rparr>,
           [StSuccess (''Loaded '' @ string_of_nat (nrows d) @ '' rows from '' @ file_name)])
      | CsvRaises e \<Rightarrow> (s, [StError (''Error loading file: '' @ e)]))"

definition sidebar_run :: "sidebar \<Rightarrow> session \<Rightarrow> exn + (session \<times> element list)" where
  "sidebar_run sb s =
     (case sb of
        YFinance ticker period None \<Rightarrow> Inr (s, [])
      | YFinance ticker period (Some outcome) \<Rightarrow> Inr (yfinance_fetch ticker period outcome s)
      | ApiLink api_url None \<Rightarrow> Inr (s, [])
      | ApiLink api_url (Some outcome) \<Rightarrow> api_fetch api_url outcome s
      | CsvUpload None \<Rightarrow> Inr (s, [])
      | CsvUpload (Some (file_name, outcome)) \<Rightarrow> Inr (csv_upload file_name outcome s))"

section \<open>The page\<close>

text \<open>
  Lines 155 to 425. The three tabs are drawn only when a table is in the session and
  passes validation; \<^verbatim>\<open>and\<close> does not call \<^verbatim>\<open>validate_dataframe\<close> when no table is there.
  An exception that no handler catches ends the run. Headings, the source banner and the
  row and column counters (lines 159 to 179) carry no decision and are left out.
\<close>

definition dashboard :: "ui \<Rightarrow> string option \<Rightarrow> session \<Rightarrow> dataframe \<Rightarrow> exn + element list" where
  "dashboard u px_raises s d =
     (case tab1 u d of
        Inl e \<Rightarrow> Inl e
      | Inr t1 \<Rightarrow>
          (case tab2 u px_raises s d of
             Inl e \<Rightarrow> Inl e
           | Inr t2 \<Rightarrow> Inr (t1 @ t2 @ tab3 u d)))"

definition main_content :: "ui \<Rightarrow> string option \<Rightarrow> session \<Rightarrow> exn + element list" where
  "main_content u px_raises s =
     (case df s of
        None \<Rightarrow> Inr [Welcome]
      | Some d \<Rightarrow>
          (case validate_dataframe (Some d) of
             (True, msgs) \<Rightarrow>
               (case dashboard u px_raises s d of
                  Inl e \<Rightarrow> Inl e
                | Inr els \<Rightarrow> Inr (msgs @ els))
           | (False, msgs) \<Rightarrow> Inr (msgs @ [Welcome])))"

text \<open>One run of the script: the sidebar, then the page, on the state the sidebar left.\<close>

definition run :: "sidebar \<Rightarrow> ui \<Rightarrow> string option \<Rightarrow> session \<Rightarrow> session \<times> (exn + element list)" where
  "run sb u px_raises s =
     (case sidebar_run sb s of
        Inl e \<Rightarrow> (s, Inl e)
      | Inr (s', msgs) \<Rightarrow>
          (s', case main_content u px_raises s' of
                 Inl e \<Rightarrow> Inl e
               | Inr els \<Rightarrow> Inr (msgs @ els)))"

section \<open>Predicates and example data of the properties\<close>

definition ohlc_present :: "dataframe \<Rightarrow> bool" where
  "ohlc_present d =
     (''Open'' \<in> set (columns d) \<and> ''High'' \<in> set (columns d) \<and>
      ''Low'' \<in> set (columns d) \<and> ''Close'' \<in> set (columns d))"

definition example_prices :: dataframe where
  "example_prices =
     DataFrame 2
       [Column ''Date'' DatetimeTZ [Timestamp 0, Timestamp 86400],
        Column ''Open'' Float64 [PFloat 3 0, PFloat 5 0],
        Column ''Close'' Float64 [PFloat 5 0, PFloat 7 0],
        Column ''Volume'' Int64 [PInt 100, PInt 200]]"


text \<open>
  The tags a column can carry. The script has no classifier of its own: it computes the
  three name lists of lines 224, 225 and 296, and no widget of the chart tab offers a
  column that is in none of them. \<open>tags d c\<close> lists the tags that the three lists give the column \<open>c\<close>.
\<close>

datatype tag = Numeric | Temporal | Categorical | Unsupported

definition tags :: "dataframe \<Rightarrow> string \<Rightarrow> tag list" where
  "tags d c =
     (if c \<in> set (numeric_cols d) then [Numeric] else []) @
     (if c \<in> set (datetime_cols d) then [Temporal] else []) @
     (if c \<in> set (object_cols d) then [Categorical] else []) @
     (if c \<notin> set (numeric_cols d) \<and> c \<notin> set (datetime_cols d) \<and> c \<notin> set (object_cols d)
      then [Unsupported] else [])"

definition column_types :: "dataframe \<Rightarrow> (string \<times> dtype) list" where
  "column_types d = map (\<lambda>x. (col_name x, col_dtype x)) (cols d)"

definition example_mixed :: dataframe where
  "example_mixed =
     DataFrame 2
       [Column ''when'' Datetime64 [Timestamp 0, Timestamp 60],
        Column ''price'' Float64 [PFloat 3 0, PFloat 5 0],
        Column ''qty'' Int64 [PInt 1, PInt 2],
        Column ''name'' Object [PStr ''a'', PStr ''b''],
        Column ''flag'' Bool [PBool True, PBool False]]"

definition example_mixed_no_rows :: dataframe where
  "example_mixed_no_rows =
     DataFrame 0
       [Column ''when'' Datetime64 [], Column ''price'' Float64 [], Column ''qty'' Int64 [],
        Column ''name'' Object [], Column ''flag'' Bool []]"

definition example_numbers :: dataframe where
  "example_numbers =
     DataFrame 2
       [Column ''a'' Int64 [PInt 1, PInt 2],
        Column ''b'' Float64 [PFloat 3 0, PFloat 5 0]]"

definition example_text :: dataframe where
  "example_text =
     DataFrame 2 [Column ''name'' Object [PStr ''a'', PStr ''b'']]"

text \<open>
  The failures of an ingestion attempt, as the specification names them, read off the
  sidebar's input: the provider raises (FetchError); the request times out
  (TimeoutError); the request fails otherwise, by its status or its transport or a body
  that is not JSON (HttpError); the decoded body is neither a list nor a dict
  (UnsupportedShapeError); the CSV parser raises (ParseError). With an empty URL no
  request is made.
\<close>

datatype ingest_error = FetchError | TimeoutError | HttpError | ParseError | UnsupportedShapeError

fun ingest_failure :: "sidebar \<Rightarrow> ingest_error option" where
  "ingest_failure (YFinance ticker period (Some (YfRaises e))) = Some FetchError"
| "ingest_failure (ApiLink api_url (Some Timeout)) =
     (if api_url = [] then None else Some TimeoutError)"
| "ingest_failure (ApiLink api_url (Some (RequestException e))) =
     (if api_url = [] then None else Some HttpError)"
| "ingest_failure (ApiLink api_url (Some (Json v other))) =
     (if api_url = [] \<or> is_list v \<or> is_dict v then None else Some UnsupportedShapeError)"
| "ingest_failure (CsvUpload (Some (file_name, CsvRaises e))) = Some ParseError"
| "ingest_failure _ = None"

text \<open>
  \<open>delivered sb\<close> is the table that the source of the input \<open>sb\<close> hands to the script,
  if it hands one over; \<open>source_kind sb\<close> is the tag that the script records for it.
\<close>

fun delivered :: "sidebar \<Rightarrow> dataframe option" where
  "delivered (YFinance ticker period (Some (YfFrame d))) = Some d"
| "delivered (ApiLink api_url (Some outcome)) =
     (if api_url = [] then None
      else case fetch_api_data outcome of Inr (Some d, msgs) \<Rightarrow> Some d | _ \<Rightarrow> None)"
| "delivered (CsvUpload (Some (file_name, CsvFrame d))) = Some d"
| "delivered _ = None"

fun source_kind :: "sidebar \<Rightarrow> string" where
  "source_kind (YFinance ticker period outcome) = ''yFinance''"
| "source_kind (ApiLink api_url outcome) = ''API''"
| "source_kind (CsvUpload f) = ''CSV''"


text \<open>
  A session's history: \<open>replay\<close> runs the script once per entry; \<open>origin\<close> follows the
  runs and remembers, for the last run that changed the session, the kind of its source
  and the table that source delivered.
\<close>

fun replay :: "(sidebar \<times> ui \<times> string option) list \<Rightarrow> session \<Rightarrow> session" where
  "replay [] s = s"
| "replay ((sb, u, px_raises) # rest) s = replay rest (fst (run sb u px_raises s))"

fun origin ::
  "(sidebar \<times> ui \<times> string option) list \<Rightarrow> session \<Rightarrow> (string \<times> dataframe) option
     \<Rightarrow> (string \<times> dataframe) option" where
  "origin [] s org = org"
| "origin ((sb, u, px_raises) # rest) s org =
     origin rest (fst (run sb u px_raises s))
       (if fst (run sb u px_raises s) = s then org
        else case delivered sb of None \<Rightarrow> org | Some d \<Rightarrow> Some (source_kind sb, d))"

definition example_session :: session where
  "example_session =
     \<lparr>df = Some example_prices, data_source = Some ''yFinance'',
      ticker_data = [(''ticker'', ''AAPL''), (''period'', ''1mo'')]\<rparr>"

definition example_header_only :: dataframe where
  "example_header_only = DataFrame 0 [Column ''a'' Object []]"

definition example_no_rows :: dataframe where
  "example_no_rows =
     DataFrame 0 [Column ''Date'' DatetimeTZ [], Column ''Close'' Float64 []]"

definition example_history :: "(sidebar \<times> ui \<times> string option) list" where
  "example_history =
     [(YFinance ''AAPL'' ''1mo'' (Some (YfFrame example_prices)), no_choice, None),
      (ApiLink ''https://api.example.com/data'' (Some Timeout), no_choice, None),
      (CsvUpload (Some (''t.csv'', CsvFrame example_numbers)), no_choice, None),
      (YFinance ''MSFT'' ''1mo'' (Some (YfFrame example_no_rows)), no_choice, None)]"



text \<open>
  The second component of a decoded body that is no list: the table constructor is not
  asked about it.
\<close>

definition not_asked :: "exn + dataframe" where
  "not_asked = Inl (Exception [])"



definition example_wide :: dataframe where
  "example_wide =
     DataFrame 1
       [Column ''c0'' Int64 [PInt 0], Column ''c1'' Int64 [PInt 1], Column ''c2'' Int64 [PInt 2],
        Column ''c3'' Int64 [PInt 3], Column ''c4'' Int64 [PInt 4], Column ''c5'' Int64 [PInt 5],
        Column ''c6'' Int64 [PInt 6], Column ''c7'' Int64 [PInt 7], Column ''c8'' Int64 [PInt 8],
        Column ''c9'' Int64 [PInt 9], Column ''c10'' Int64 [PInt 10]]"


definition example_first_ten :: dataframe where
  "example_first_ten =
     DataFrame 1
       [Column ''c0'' Int64 [PInt 0], Column ''c1'' Int64 [PInt 1], Column ''c2'' Int64 [PInt 2],
        Column ''c3'' Int64 [PInt 3], Column ''c4'' Int64 [PInt 4], Column ''c5'' Int64 [PInt 5],
        Column ''c6'' Int64 [PInt 6], Column ''c7'' Int64 [PInt 7], Column ''c8'' Int64 [PInt 8],
        Column ''c9'' Int64 [PInt 9]]"

section \<open>Properties\<close>

lemma getitem_present:
  "k \<in> set (columns d) \<Longrightarrow> \<exists>c. getitem d k = Inr c"
proof -
  assume "k \<in> set (columns d)"
  then have "filter (\<lambda>c. col_name c = k) (cols d) \<noteq> []"
    by (auto simp: columns_def filter_empty_conv)
  then show ?thesis
    by (cases "filter (\<lambda>c. col_name c = k) (cols d)") (auto simp: getitem_def)
qed

lemma getitems_present:
  "set ks \<subseteq> set (columns d) \<Longrightarrow> \<exists>cs. getitems d ks = Inr cs"
proof (induction ks)
  case Nil
  then show ?case by simp
next
  case (Cons k ks)
  then obtain c cs where "getitem d k = Inr c" "getitems d ks = Inr cs"
    using getitem_present [of k d] by auto
  then show ?case by simp
qed

subsection \<open>The price chart of market data\<close>

lemma price_trace_present:
  assumes "''Close'' \<in> set (columns d)" and "''Date'' \<in> set (columns d)"
  shows "price_trace d =
           Inr (if ohlc_present d
                then Candlestick ''Date'' ''Open'' ''High'' ''Low'' ''Close''
                else Scatter ''Date'' ''Close'' ''lines'')"
proof (cases "ohlc_present d")
  case True
  then have "set [''Date'', ''Open'', ''High'', ''Low'', ''Close''] \<subseteq> set (columns d)"
    using assms by (simp add: ohlc_present_def)
  then obtain cs where "getitems d [''Date'', ''Open'', ''High'', ''Low'', ''Close''] = Inr cs"
    using getitems_present by blast
  moreover have "list_all (\<lambda>c. c \<in> set (columns d)) [''Open'', ''High'', ''Low'', ''Close'']"
    using True by (simp add: ohlc_present_def)
  ultimately show ?thesis
    using True by (auto simp add: price_trace_def ohlc_present_def simp del: getitems.simps)
next
  case False
  have "set [''Date'', ''Close''] \<subseteq> set (columns d)"
    using assms by simp
  then obtain cs where "getitems d [''Date'', ''Close''] = Inr cs"
    using getitems_present by blast
  moreover have "\<not> list_all (\<lambda>c. c \<in> set (columns d)) [''Open'', ''High'', ''Low'', ''Close'']"
    using False by (simp add: ohlc_present_def)
  ultimately show ?thesis
    using False by (auto simp add: price_trace_def ohlc_present_def simp del: getitems.simps)
qed

lemma volume_chart_present:
  assumes "''Date'' \<in> set (columns d)"
  shows "\<exists>vol. volume_chart d = Inr vol"
proof (cases "''Volume'' \<in> set (columns d)")
  case True
  then have "set [''Date'', ''Volume''] \<subseteq> set (columns d)"
    using assms by simp
  then obtain cs where "getitems d [''Date'', ''Volume''] = Inr cs"
    using getitems_present by blast
  then show ?thesis
    using True by (simp add: volume_chart_def del: getitems.simps)
next
  case False
  then show ?thesis by (simp add: volume_chart_def)
qed

text \<open>
  Without a \<open>Date\<close> column the first lookup of either trace raises: the hypothesis on
  \<open>Date\<close> in the theorem below cannot be dropped.
\<close>

lemma price_trace_without_date:
  assumes "''Date'' \<notin> set (columns d)"
  shows "price_trace d = Inl (KeyError ''Date'')"
proof -
  have "\<forall>c \<in> set (cols d). col_name c \<noteq> ''Date''"
    using assms unfolding columns_def by (metis image_eqI set_map)
  then have "filter (\<lambda>c. col_name c = ''Date'') (cols d) = []"
    by (simp add: filter_empty_conv)
  then have "getitem d ''Date'' = Inl (KeyError ''Date'')"
    by (simp add: getitem_def)
  then show ?thesis
    by (simp add: price_trace_def)
qed

text \<open>
  Claim C1. For a table loaded from the market-data source that has a \<open>Close\<close> column
  (and the \<open>Date\<close> column that every table of that source carries), the chart tab
  shows the price figure first: a candlestick trace over Open, High, Low and Close
  exactly when all four columns are present, and otherwise one line over \<open>Close\<close>.
  In both cases the trace is drawn against \<open>Date\<close> and the x axis is titled Date.
  The user's chart selections play no part.
\<close>

theorem yfinance_price_chart_dispatch:
  assumes "data_source s = Some ''yFinance''"
    and "''Close'' \<in> set (columns d)"
    and "''Date'' \<in> set (columns d)"
  shows "\<exists>vol. tab2 u px_raises s d =
           Inr (Markdown ''#### Stock Price Over Time'' #
                PlotlyChart
                  (GoFigure
                     (if ohlc_present d
                      then Candlestick ''Date'' ''Open'' ''High'' ''Low'' ''Close''
                      else Scatter ''Date'' ''Close'' ''lines'')
                     ''Date'' ''Price (USD)'') # vol)"
proof -
  obtain vol where "volume_chart d = Inr vol"
    using volume_chart_present [OF assms(3)] by blast
  then show ?thesis
    using assms(1,2) price_trace_present [OF assms(2,3)]
    by (simp add: tab2_def price_charts_def)
qed

theorem yfinance_price_chart_dispatch_witness:
  "data_source (init_session\<lparr>df := Some example_prices, data_source := Some ''yFinance''\<rparr>)
     = Some ''yFinance'' \<and>
   ''Close'' \<in> set (columns example_prices) \<and>
   ''Date'' \<in> set (columns example_prices) \<and>
   \<not> ohlc_present example_prices \<and>
   (\<exists>vol. tab2 no_choice None
            (init_session\<lparr>df := Some example_prices, data_source := Some ''yFinance''\<rparr>)
            example_prices =
          Inr (Markdown ''#### Stock Price Over Time'' #
               PlotlyChart (GoFigure (Scatter ''Date'' ''Close'' ''lines'') ''Date'' ''Price (USD)'') #
               vol))"
proof -
  have c: "columns example_prices = [''Date'', ''Open'', ''Close'', ''Volume'']"
    by (simp add: example_prices_def columns_def)
  have h1: "data_source (init_session\<lparr>df := Some example_prices, data_source := Some ''yFinance''\<rparr>)
              = Some ''yFinance''"
    by simp
  have h2: "''Close'' \<in> set (columns example_prices)" by (simp add: c)
  have h3: "''Date'' \<in> set (columns example_prices)" by (simp add: c)
  have h4: "\<not> ohlc_present example_prices" by (simp add: ohlc_present_def c)
  show ?thesis
    using yfinance_price_chart_dispatch [OF h1 h2 h3, of no_choice None] h1 h2 h3 h4
    by simp
qed

subsection \<open>The example tables\<close>

lemma example_mixed_columns:
  "columns example_mixed = [''when'', ''price'', ''qty'', ''name'', ''flag'']"
  by (simp add: columns_def example_mixed_def)

lemma example_mixed_numeric: "numeric_cols example_mixed = [''price'', ''qty'']"
  by (simp add: numeric_cols_def select_dtypes_def columns_def example_mixed_def
      dtype_matches.simps)

lemma example_mixed_datetime: "datetime_cols example_mixed = [''when'']"
  by (simp add: datetime_cols_def select_dtypes_def columns_def example_mixed_def
      dtype_matches.simps)

lemma example_mixed_object: "object_cols example_mixed = [''name'']"
  by (simp add: object_cols_def select_dtypes_def columns_def example_mixed_def
      dtype_matches.simps)

lemma example_numbers_numeric: "numeric_cols example_numbers = [''a'', ''b'']"
  by (simp add: numeric_cols_def select_dtypes_def columns_def example_numbers_def
      dtype_matches.simps)

lemma example_numbers_datetime: "datetime_cols example_numbers = []"
  by (simp add: datetime_cols_def select_dtypes_def columns_def example_numbers_def
      dtype_matches.simps)

lemma example_numbers_object: "object_cols example_numbers = []"
  by (simp add: object_cols_def select_dtypes_def columns_def example_numbers_def
      dtype_matches.simps)

lemma example_text_numeric: "numeric_cols example_text = []"
  by (simp add: numeric_cols_def select_dtypes_def columns_def example_text_def
      dtype_matches.simps)

subsection \<open>Column classification\<close>

lemma select_column:
  "c \<in> set (columns (select_dtypes [sel] d)) \<Longrightarrow>
   \<exists>x \<in> set (cols d). col_name x = c \<and> dtype_matches sel (col_dtype x)"
  by (auto simp: columns_def select_dtypes_def)

lemma select_by_types:
  "columns (select_dtypes [sel] d) =
     map fst (filter (\<lambda>p. dtype_matches sel (snd p)) (column_types d))"
  by (simp add: columns_def select_dtypes_def column_types_def filter_map comp_def)

lemma distinct_same_column:
  assumes "distinct (columns d)" and "c1 \<in> set (cols d)" and "c2 \<in> set (cols d)"
    and "col_name c1 = col_name c2"
  shows "c1 = c2"
  using assms unfolding columns_def
  by (meson distinct_map inj_onD)

lemma disjoint_selectors:
  assumes "distinct (columns d)"
    and "\<And>t. dtype_matches s1 t \<Longrightarrow> \<not> dtype_matches s2 t"
    and "c \<in> set (columns (select_dtypes [s1] d))"
  shows "c \<notin> set (columns (select_dtypes [s2] d))"
proof
  assume "c \<in> set (columns (select_dtypes [s2] d))"
  then obtain y where y: "y \<in> set (cols d)" "col_name y = c" "dtype_matches s2 (col_dtype y)"
    using select_column by blast
  obtain x where x: "x \<in> set (cols d)" "col_name x = c" "dtype_matches s1 (col_dtype x)"
    using select_column [OF assms(3)] by blast
  have "x = y"
    using distinct_same_column [OF assms(1) x(1) y(1)] x(2) y(2) by simp
  then show False
    using assms(2) x(3) y(3) by blast
qed

lemma numeric_not_datetime:
  "distinct (columns d) \<Longrightarrow> c \<in> set (numeric_cols d) \<Longrightarrow> c \<notin> set (datetime_cols d)"
  unfolding numeric_cols_def datetime_cols_def
  by (rule disjoint_selectors) (auto simp: dtype_matches.simps split: if_splits)

lemma numeric_not_object:
  "distinct (columns d) \<Longrightarrow> c \<in> set (numeric_cols d) \<Longrightarrow> c \<notin> set (object_cols d)"
  unfolding numeric_cols_def object_cols_def
  by (rule disjoint_selectors) (auto simp: dtype_matches.simps split: if_splits)

lemma datetime_not_object:
  "distinct (columns d) \<Longrightarrow> c \<in> set (datetime_cols d) \<Longrightarrow> c \<notin> set (object_cols d)"
  unfolding datetime_cols_def object_cols_def
  by (rule disjoint_selectors) (auto simp: dtype_matches.simps split: if_splits)

lemma tags_by_types:
  assumes "column_types d' = column_types d"
  shows "tags d' c = tags d c"
  using assms
  by (simp add: tags_def numeric_cols_def datetime_cols_def object_cols_def select_by_types)

text \<open>
  Claim C4. In a table whose column names are unique, every column carries exactly one
  of the four tags: the three name lists the script computes are pairwise disjoint, and
  a column in none of them is unsupported. The tag is a function of the table, and of its
  column names and column types alone: a table with the same names and types, whatever
  its cells, gives every column the same tag.
\<close>

theorem classification_total_deterministic:
  assumes "distinct (columns d)" and "c \<in> set (columns d)"
  shows "(\<exists>t. tags d c = [t]) \<and>
         (\<forall>d'. column_types d' = column_types d \<longrightarrow> tags d' c = tags d c)"
proof
  show "\<exists>t. tags d c = [t]"
    using numeric_not_datetime [OF assms(1), of c] numeric_not_object [OF assms(1), of c]
      datetime_not_object [OF assms(1), of c]
    unfolding tags_def by auto
  show "\<forall>d'. column_types d' = column_types d \<longrightarrow> tags d' c = tags d c"
    using tags_by_types by blast
qed

theorem classification_total_deterministic_witness:
  "distinct (columns example_mixed) \<and> ''flag'' \<in> set (columns example_mixed) \<and>
   ''qty'' \<in> set (columns example_mixed) \<and>
   tags example_mixed ''flag'' = [Unsupported] \<and>
   tags example_mixed ''qty'' = [Numeric] \<and>
   column_types example_mixed_no_rows = column_types example_mixed \<and>
   tags example_mixed_no_rows ''flag'' = [Unsupported]"
proof -
  have h1: "distinct (columns example_mixed)"
    by (simp add: example_mixed_columns)
  have h2: "''flag'' \<in> set (columns example_mixed)"
    by (simp add: example_mixed_columns)
  have h3: "''qty'' \<in> set (columns example_mixed)"
    by (simp add: example_mixed_columns)
  have t1: "tags example_mixed ''flag'' = [Unsupported]"
    by (simp add: tags_def example_mixed_numeric example_mixed_datetime example_mixed_object)
  have t2: "tags example_mixed ''qty'' = [Numeric]"
    by (simp add: tags_def example_mixed_numeric example_mixed_datetime example_mixed_object)
  have ct: "column_types example_mixed_no_rows = column_types example_mixed"
    by (simp add: column_types_def example_mixed_no_rows_def example_mixed_def)
  show ?thesis
    using classification_total_deterministic [OF h1 h2] h1 h2 h3 t1 t2 ct by metis
qed

subsection \<open>The generic chart builder\<close>

lemma selectbox_default:
  "selectbox opts None = (case opts of [] \<Rightarrow> None | x # _ \<Rightarrow> Some x)"
  by (simp add: selectbox_def)

lemma generic_chart_default:
  assumes "numeric_cols d = n # ns"
  shows "generic_chart no_choice None d =
           [PlotlyChart
              (PxLine (Some (case datetime_cols d of [] \<Rightarrow> n | t # _ \<Rightarrow> t)) (Some n) None)]"
  using assms
  by (simp add: generic_chart_def no_choice_def selectbox_default x_options_def
      color_options_def Let_def split: list.splits)

lemma generic_chart_info:
  "(StInfo ''No numeric columns available for visualization'' \<in> set (generic_chart u px_raises d))
     = (numeric_cols d = [])"
  by (simp add: generic_chart_def Let_def split: option.splits)

text \<open>
  Claim C5, as the claim states it, fails: in a table with the numeric columns \<open>a\<close> and
  \<open>b\<close> and no time-stamp column, the x axis defaults to \<open>a\<close>, the column of the y axis,
  and not to \<open>b\<close>.
\<close>

theorem default_axes_counterexample:
  "numeric_cols example_numbers = [''a'', ''b''] \<and>
   datetime_cols example_numbers = [] \<and>
   tab2 no_choice None (init_session\<lparr>df := Some example_numbers, data_source := Some ''CSV''\<rparr>)
     example_numbers =
     Inr [PlotlyChart (PxLine (Some ''a'') (Some ''a'') None)]"
  by (simp add: tab2_def generic_chart_default [OF example_numbers_numeric]
      example_numbers_numeric example_numbers_datetime)

text \<open>
  Claim C5, amended. In the generic chart builder, with a numeric column there and no
  choice made yet, the y axis defaults to the first numeric column; the x axis defaults to
  the first time-stamp column if there is one, and otherwise to the first numeric column,
  which is the column of the y axis. The chart is a line chart without colour.
\<close>

theorem default_axes:
  assumes "\<not> (data_source s = Some ''yFinance'' \<and> ''Close'' \<in> set (columns d))"
    and "numeric_cols d = n # ns"
  shows "tab2 no_choice None s d =
           Inr [PlotlyChart
                  (PxLine (Some (case datetime_cols d of [] \<Rightarrow> n | t # _ \<Rightarrow> t)) (Some n) None)]"
proof -
  have "tab2 no_choice None s d = Inr (generic_chart no_choice None d)"
    using assms(1) by (auto simp: tab2_def)
  then show ?thesis
    using generic_chart_default [OF assms(2)] by simp
qed

theorem default_axes_witness:
  "\<not> (data_source (init_session\<lparr>df := Some example_mixed, data_source := Some ''CSV''\<rparr>)
        = Some ''yFinance'' \<and> ''Close'' \<in> set (columns example_mixed)) \<and>
   numeric_cols example_mixed = [''price'', ''qty''] \<and>
   tab2 no_choice None (init_session\<lparr>df := Some example_mixed, data_source := Some ''CSV''\<rparr>)
     example_mixed =
     Inr [PlotlyChart (PxLine (Some ''when'') (Some ''price'') None)]"
proof -
  have h1: "\<not> (data_source (init_session\<lparr>df := Some example_mixed, data_source := Some ''CSV''\<rparr>)
        = Some ''yFinance'' \<and> ''Close'' \<in> set (columns example_mixed))"
    by simp
  show ?thesis
    using default_axes [OF h1 example_mixed_numeric] h1 example_mixed_numeric
    by (simp add: example_mixed_datetime)
qed

text \<open>
  Claim C6. In the generic branch of the chart tab the notice that no numeric column is
  available is shown exactly when the table has no numeric column. The notice is an
  information element: the tab returns normally (no exception leaves it), and with a
  numeric column the notice is absent.
\<close>

theorem no_numeric_columns_notice:
  assumes "\<not> (data_source s = Some ''yFinance'' \<and> ''Close'' \<in> set (columns d))"
  shows "\<exists>els. tab2 u px_raises s d = Inr els \<and>
           ((StInfo ''No numeric columns available for visualization'' \<in> set els)
              = (numeric_cols d = [])) \<and>
           ((els = [StInfo ''No numeric columns available for visualization''])
              = (numeric_cols d = []))"
proof -
  have "tab2 u px_raises s d = Inr (generic_chart u px_raises d)"
    using assms by (auto simp: tab2_def)
  moreover have "(generic_chart u px_raises d =
                    [StInfo ''No numeric columns available for visualization''])
                  = (numeric_cols d = [])"
    by (simp add: generic_chart_def Let_def split: option.splits)
  ultimately show ?thesis
    using generic_chart_info by simp
qed

theorem no_numeric_columns_notice_witness:
  "\<not> (data_source (init_session\<lparr>df := Some example_text, data_source := Some ''API''\<rparr>)
        = Some ''yFinance'' \<and> ''Close'' \<in> set (columns example_text)) \<and>
   numeric_cols example_text = [] \<and>
   tab2 no_choice None (init_session\<lparr>df := Some example_text, data_source := Some ''API''\<rparr>)
     example_text = Inr [StInfo ''No numeric columns available for visualization'']"
proof -
  have h1: "\<not> (data_source (init_session\<lparr>df := Some example_text, data_source := Some ''API''\<rparr>)
        = Some ''yFinance'' \<and> ''Close'' \<in> set (columns example_text))"
    by simp
  show ?thesis
    using no_numeric_columns_notice [OF h1, of no_choice None] h1 example_text_numeric
    by auto
qed

subsection \<open>The statistics tab\<close>

text \<open>
  Claim C9. The statistics tab applies \<^verbatim>\<open>describe\<close> to the numeric columns, all of them
  and no other, whenever there is one; it draws the correlation matrix, over the same
  columns, exactly when there are at least two; and it reports no error, whatever the
  number of numeric columns.
\<close>

theorem summary_statistics:
  "(numeric_cols d \<noteq> [] \<longrightarrow> StDescribe (numeric_cols d) \<in> set (tab3 u d)) \<and>
   (\<forall>cs. StDescribe cs \<in> set (tab3 u d) \<longrightarrow> cs = numeric_cols d) \<and>
   (\<forall>cs. (PlotlyChart (PxImshow cs) \<in> set (tab3 u d))
            = (cs = numeric_cols d \<and> 2 \<le> length (numeric_cols d))) \<and>
   (\<forall>e. StError e \<notin> set (tab3 u d))"
  by (auto simp add: tab3_def split: if_splits option.splits)

theorem summary_statistics_witness:
  "numeric_cols example_mixed \<noteq> [] \<and>
   StDescribe [''price'', ''qty''] \<in> set (tab3 no_choice example_mixed) \<and>
   PlotlyChart (PxImshow [''price'', ''qty'']) \<in> set (tab3 no_choice example_mixed) \<and>
   (\<forall>e. StError e \<notin> set (tab3 no_choice example_mixed))"
  using summary_statistics [of example_mixed no_choice]
  by (simp add: example_mixed_numeric)

subsection \<open>The sidebar and the session\<close>

lemma fst_run: "fst (run sb u px s) = (case sidebar_run sb s of Inl e \<Rightarrow> s | Inr (s', msgs) \<Rightarrow> s')"
  by (simp add: run_def split: sum.splits prod.splits)


lemma yfinance_fetch_raises:
  "yfinance_fetch ticker period (YfRaises e) s =
     (s, [StError (''Error fetching data for '' @ ticker @ '': '' @ e)])"
  by (simp add: yfinance_fetch_def fetch_yfinance_data_def)

lemma yfinance_fetch_frame:
  "yfinance_fetch ticker period (YfFrame d) s =
     (if empty d then (s, [])
      else (s\<lparr>df := Some d, data_source := Some ''yFinance'',
               ticker_data := [(''ticker'', ticker), (''period'', period)]\<rparr>,
            [StSuccess (''Loaded '' @ string_of_nat (nrows d) @ '' records'')]))"
  by (simp add: yfinance_fetch_def fetch_yfinance_data_def)

lemma api_fetch_cases:
  "api_fetch api_url outcome s =
     (if api_url = [] then Inr (s, [StWarning ''Please enter an API URL''])
      else case fetch_api_data outcome of
             Inl e \<Rightarrow> Inl e
           | Inr (None, msgs) \<Rightarrow> Inr (s, msgs)
           | Inr (Some d, msgs) \<Rightarrow>
               if empty d then Inr (s, msgs)
               else Inr (s\<lparr>df := Some d, data_source := Some ''API''\<rparr>,
                         msgs @ [StSuccess (''Loaded '' @ string_of_nat (nrows d) @ '' records'')]))"
  by (simp add: api_fetch_def split: sum.splits prod.splits option.splits)

lemma failure_unchanged:
  assumes "ingest_failure sb = Some err"
  shows "\<exists>msg. sidebar_run sb s = Inr (s, [StError msg])"
  using assms
proof (induction sb rule: ingest_failure.induct)
  case (1 ticker period e)
  then show ?case by (simp add: sidebar_run_def yfinance_fetch_raises)
next
  case (2 api_url)
  then show ?case by (simp add: sidebar_run_def api_fetch_cases fetch_api_data_def split: if_splits)
next
  case (3 api_url e)
  then show ?case by (simp add: sidebar_run_def api_fetch_cases fetch_api_data_def split: if_splits)
next
  case (4 api_url v)
  then show ?case by (simp add: sidebar_run_def api_fetch_cases fetch_api_data_def split: if_splits)
next
  case (5 file_name e)
  then show ?case by (simp add: sidebar_run_def csv_upload_def)
qed simp_all


lemma yf_step:
  assumes "yfinance_fetch ticker period outcome s = (s', msgs)"
  shows "s' = s \<or> (\<exists>d. outcome = YfFrame d \<and> df s' = Some d \<and> data_source s' = Some ''yFinance'')"
proof (cases outcome)
  case (YfRaises e)
  then show ?thesis using assms by (simp add: yfinance_fetch_raises)
next
  case (YfFrame d)
  show ?thesis
  proof (cases "empty d")
    case True
    then show ?thesis using assms YfFrame by (simp add: yfinance_fetch_frame)
  next
    case False
    then have "s' = s\<lparr>df := Some d, data_source := Some ''yFinance'',
               ticker_data := [(''ticker'', ticker), (''period'', period)]\<rparr>"
      using assms YfFrame by (simp add: yfinance_fetch_frame)
    then show ?thesis using YfFrame by simp
  qed
qed

lemma api_step:
  assumes "api_fetch api_url outcome s = Inr (s', msgs)"
  shows "s' = s \<or>
         (\<exists>d m. api_url \<noteq> [] \<and> fetch_api_data outcome = Inr (Some d, m) \<and>
                df s' = Some d \<and> data_source s' = Some ''API'')"
proof (cases "api_url = []")
  case True
  then show ?thesis using assms by (simp add: api_fetch_cases)
next
  case url: False
  show ?thesis
  proof (cases "fetch_api_data outcome")
    case (Inl e)
    then show ?thesis using assms url by (simp add: api_fetch_cases)
  next
    case (Inr r)
    obtain t m where r: "r = (t, m)" by (cases r)
    show ?thesis
    proof (cases t)
      case None
      then show ?thesis using assms url Inr r by (simp add: api_fetch_cases)
    next
      case (Some d)
      show ?thesis
      proof (cases "empty d")
        case True
        then show ?thesis using assms url Inr r Some by (simp add: api_fetch_cases)
      next
        case False
        then have "s' = s\<lparr>df := Some d, data_source := Some ''API''\<rparr>"
          using assms url Inr r Some by (simp add: api_fetch_cases)
        then show ?thesis using url Inr r Some by simp
      qed
    qed
  qed
qed

lemma csv_step:
  assumes "csv_upload file_name outcome s = (s', msgs)"
  shows "s' = s \<or> (\<exists>d. outcome = CsvFrame d \<and> df s' = Some d \<and> data_source s' = Some ''CSV'')"
proof (cases outcome)
  case (CsvRaises e)
  then show ?thesis using assms by (simp add: csv_upload_def)
next
  case (CsvFrame d)
  then have "s' = s\<lparr>df := Some d, data_source := Some ''CSV''\<rparr>"
    using assms by (simp add: csv_upload_def)
  then show ?thesis using CsvFrame by simp
qed

lemma sidebar_step:
  assumes "sidebar_run sb s = Inr (s', msgs)"
  shows "s' = s \<or>
         (\<exists>d. delivered sb = Some d \<and> df s' = Some d \<and> data_source s' = Some (source_kind sb))"
proof (cases sb)
  case (YFinance ticker period o1)
  show ?thesis
  proof (cases o1)
    case None
    then show ?thesis using assms YFinance by (simp add: sidebar_run_def)
  next
    case (Some outcome)
    then have "yfinance_fetch ticker period outcome s = (s', msgs)"
      using assms YFinance by (simp add: sidebar_run_def)
    from yf_step [OF this] show ?thesis using YFinance Some by auto
  qed
next
  case (ApiLink api_url o2)
  show ?thesis
  proof (cases o2)
    case None
    then show ?thesis using assms ApiLink by (simp add: sidebar_run_def)
  next
    case (Some outcome)
    then have "api_fetch api_url outcome s = Inr (s', msgs)"
      using assms ApiLink by (simp add: sidebar_run_def)
    from api_step [OF this] show ?thesis using ApiLink Some by auto
  qed
next
  case (CsvUpload f)
  show ?thesis
  proof (cases f)
    case None
    then show ?thesis using assms CsvUpload by (simp add: sidebar_run_def)
  next
    case (Some a)
    obtain file_name outcome where a: "a = (file_name, outcome)" by (cases a)
    have "csv_upload file_name outcome s = (s', msgs)"
      using assms CsvUpload Some a by (simp add: sidebar_run_def)
    from csv_step [OF this] show ?thesis using CsvUpload Some a by auto
  qed
qed

lemma run_step:
  "fst (run sb u px s) = s \<or>
   (\<exists>d. delivered sb = Some d \<and> df (fst (run sb u px s)) = Some d \<and>
        data_source (fst (run sb u px s)) = Some (source_kind sb))"
proof (cases "sidebar_run sb s")
  case (Inl e)
  then show ?thesis by (simp add: run_def)
next
  case (Inr r)
  obtain s' msgs where r: "r = (s', msgs)" by (cases r)
  have "fst (run sb u px s) = s'" using Inr r by (simp add: run_def)
  then show ?thesis using sidebar_step [of sb s s' msgs] Inr r by simp
qed

lemma failure_run_unchanged:
  assumes "ingest_failure sb = Some err"
  shows "fst (run sb u px s) = s"
proof -
  obtain msg where "sidebar_run sb s = Inr (s, [StError msg])"
    using failure_unchanged [OF assms] by blast
  then show ?thesis by (simp add: run_def)
qed

lemma empty_load_unchanged:
  assumes "delivered sb = Some d" and "empty d" and "source_kind sb \<noteq> ''CSV''"
  shows "fst (run sb u px s) = s"
proof (cases sb)
  case (YFinance ticker period o1)
  then obtain outcome where "o1 = Some outcome" using assms(1) by (cases o1) auto
  moreover from this have "outcome = YfFrame d" using assms(1) YFinance by (cases outcome) auto
  ultimately show ?thesis using YFinance assms(2)
    by (simp add: fst_run sidebar_run_def yfinance_fetch_frame)
next
  case (ApiLink api_url o2)
  then obtain outcome where o: "o2 = Some outcome" using assms(1) by (cases o2) auto
  have url: "api_url \<noteq> []" using assms(1) ApiLink o by (auto split: if_splits)
  then obtain m where "fetch_api_data outcome = Inr (Some d, m)"
    using assms(1) ApiLink o by (auto split: if_splits sum.splits option.splits prod.splits)
  then show ?thesis using ApiLink o url assms(2)
    by (simp add: fst_run sidebar_run_def api_fetch_cases)
next
  case (CsvUpload f)
  then show ?thesis using assms(3) by simp
qed

lemma origin_invariant:
  assumes "df s = map_option snd org" and "data_source s = map_option fst org"
  shows "df (replay xs s) = map_option snd (origin xs s org) \<and>
         data_source (replay xs s) = map_option fst (origin xs s org)"
  using assms
proof (induction xs arbitrary: s org)
  case Nil
  then show ?case by simp
next
  case (Cons x xs)
  obtain sb u px where x: "x = (sb, u, px)" by (cases x)
  let ?s' = "fst (run sb u px s)"
  let ?org' = "if ?s' = s then org
               else case delivered sb of None \<Rightarrow> org | Some d \<Rightarrow> Some (source_kind sb, d)"
  have "df ?s' = map_option snd ?org' \<and> data_source ?s' = map_option fst ?org'"
  proof (cases "?s' = s")
    case True
    then show ?thesis using Cons.prems by simp
  next
    case False
    then obtain d where "delivered sb = Some d" "df ?s' = Some d"
        "data_source ?s' = Some (source_kind sb)"
      using run_step [of sb u px s] by blast
    then show ?thesis using False by simp
  qed
  then have "df (replay xs ?s') = map_option snd (origin xs ?s' ?org') \<and>
             data_source (replay xs ?s') = map_option fst (origin xs ?s' ?org')"
    using Cons.IH by blast
  then show ?case using x by simp
qed

lemma validate_cases:
  "validate_dataframe x =
     (if \<exists>t. x = Some t \<and> \<not> empty t then (True, [])
      else (False, [StWarning ''No data available to display.'']))"
  by (auto simp: validate_dataframe_def split: option.splits)

lemma main_content_cases:
  "main_content u px s =
     (case df s of
        None \<Rightarrow> Inr [Welcome]
      | Some t \<Rightarrow> if empty t then Inr [StWarning ''No data available to display.'', Welcome]
                   else dashboard u px s t)"
  by (simp add: main_content_def validate_dataframe_def split: option.splits sum.splits)

text \<open>
  Claim C7. A run whose ingestion attempt fails (the provider raises, the request times
  out or fails, the body is neither a list nor a dict, the CSV parser raises) reports one
  error and leaves the session as it was: the table, its source tag and the ticker
  record. Conversely a run that changes the session is no failure: the changed session
  holds the table that the run's source delivered.
\<close>

theorem ingestion_failure_leaves_session:
  "(ingest_failure sb \<noteq> None \<longrightarrow>
      fst (run sb u px_raises s) = s \<and> (\<exists>msg. sidebar_run sb s = Inr (s, [StError msg]))) \<and>
   (fst (run sb u px_raises s) \<noteq> s \<longrightarrow>
      ingest_failure sb = None \<and>
      (\<exists>d. delivered sb = Some d \<and> df (fst (run sb u px_raises s)) = Some d))"
proof (intro conjI impI)
  assume "ingest_failure sb \<noteq> None"
  then obtain err where err: "ingest_failure sb = Some err" by blast
  show "fst (run sb u px_raises s) = s"
    using failure_run_unchanged [OF err] .
  show "\<exists>msg. sidebar_run sb s = Inr (s, [StError msg])"
    using failure_unchanged [OF err] .
next
  assume changed: "fst (run sb u px_raises s) \<noteq> s"
  show "ingest_failure sb = None"
  proof (rule ccontr)
    assume "ingest_failure sb \<noteq> None"
    then obtain err where "ingest_failure sb = Some err" by blast
    then show False using failure_run_unchanged changed by blast
  qed
  show "\<exists>d. delivered sb = Some d \<and> df (fst (run sb u px_raises s)) = Some d"
    using run_step [of sb u px_raises s] changed by blast
qed

theorem ingestion_failure_leaves_session_witness:
  "ingest_failure (ApiLink ''https://api.example.com/data'' (Some (Json (PInt 42) not_asked)))
     = Some UnsupportedShapeError \<and>
   fst (run (ApiLink ''https://api.example.com/data'' (Some (Json (PInt 42) not_asked)))
          no_choice None example_session) = example_session \<and>
   fst (run (CsvUpload (Some (''t.csv'', CsvFrame example_numbers))) no_choice None example_session)
     \<noteq> example_session \<and>
   delivered (CsvUpload (Some (''t.csv'', CsvFrame example_numbers))) = Some example_numbers"
proof -
  have f: "ingest_failure (ApiLink ''https://api.example.com/data'' (Some (Json (PInt 42) not_asked)))
             = Some UnsupportedShapeError"
    by simp
  have c: "fst (run (CsvUpload (Some (''t.csv'', CsvFrame example_numbers))) no_choice None
                  example_session) \<noteq> example_session"
  proof
    assume "fst (run (CsvUpload (Some (''t.csv'', CsvFrame example_numbers))) no_choice None
                   example_session) = example_session"
    then have "data_source (fst (run (CsvUpload (Some (''t.csv'', CsvFrame example_numbers)))
                 no_choice None example_session)) = data_source example_session"
      by simp
    then show False
      by (simp add: fst_run sidebar_run_def csv_upload_def example_session_def)
  qed
  show ?thesis
    using ingestion_failure_leaves_session
            [of "ApiLink ''https://api.example.com/data'' (Some (Json (PInt 42) not_asked))"
                no_choice None example_session]
          ingestion_failure_leaves_session
            [of "CsvUpload (Some (''t.csv'', CsvFrame example_numbers))"
                no_choice None example_session]
          f c
    by simp
qed

text \<open>
  Claim C3, as the claim states it, fails: a market-data fetch that succeeds with a table
  of no rows is no error for the adapter, but the fetch handler drops the table, and on a
  fresh session the page is the welcome page with no warning on it.
\<close>

theorem empty_fetch_counterexample:
  "empty example_no_rows \<and>
   fetch_yfinance_data ''AAPL'' (YfFrame example_no_rows) = (Some example_no_rows, []) \<and>
   run (YFinance ''AAPL'' ''1mo'' (Some (YfFrame example_no_rows))) no_choice None init_session
     = (init_session, Inr [Welcome])"
  by (simp add: run_def sidebar_run_def yfinance_fetch_frame empty_def main_content_def
      init_session_def fetch_yfinance_data_def example_no_rows_def)

text \<open>
  Claim C3, amended. A market-data fetch that succeeds is no error for the adapter: it
  returns the table and reports nothing. When the table is empty (no rows, or no
  columns) the fetch handler drops it: the session is unchanged, the handler reports
  nothing, and the page is the one the unchanged session gives. The validator is applied
  to the table of the session: it returns true and stays silent for a table that is
  present and not empty, and returns false with a warning otherwise. The page draws the
  tabs only for a table that is present and not empty; with no table in the session the
  validator is not called and the welcome page carries no warning.
\<close>

theorem empty_fetch_and_validation:
  "fetch_yfinance_data ticker (YfFrame d) = (Some d, []) \<and>
   (empty d \<longrightarrow>
      yfinance_fetch ticker period (YfFrame d) s = (s, []) \<and>
      run (YFinance ticker period (Some (YfFrame d))) u px_raises s
        = (s, main_content u px_raises s)) \<and>
   validate_dataframe x =
     (if \<exists>t. x = Some t \<and> \<not> empty t then (True, [])
      else (False, [StWarning ''No data available to display.''])) \<and>
   main_content u px_raises s =
     (case df s of
        None \<Rightarrow> Inr [Welcome]
      | Some t \<Rightarrow>
          if empty t then Inr [StWarning ''No data available to display.'', Welcome]
          else dashboard u px_raises s t)"
proof (intro conjI impI)
  show "fetch_yfinance_data ticker (YfFrame d) = (Some d, [])"
    by (simp add: fetch_yfinance_data_def)
  show "validate_dataframe x =
     (if \<exists>t. x = Some t \<and> \<not> empty t then (True, [])
      else (False, [StWarning ''No data available to display.'']))"
    by (rule validate_cases)
  show "main_content u px_raises s =
     (case df s of
        None \<Rightarrow> Inr [Welcome]
      | Some t \<Rightarrow>
          if empty t then Inr [StWarning ''No data available to display.'', Welcome]
          else dashboard u px_raises s t)"
    by (rule main_content_cases)
next
  assume e: "empty d"
  then show "yfinance_fetch ticker period (YfFrame d) s = (s, [])"
    by (simp add: yfinance_fetch_frame)
  then show "run (YFinance ticker period (Some (YfFrame d))) u px_raises s
               = (s, main_content u px_raises s)"
    by (cases "main_content u px_raises s") (simp_all add: run_def sidebar_run_def)
qed

theorem empty_fetch_and_validation_witness:
  "empty example_no_rows \<and>
   yfinance_fetch ''AAPL'' ''1mo'' (YfFrame example_no_rows) example_session
     = (example_session, []) \<and>
   fst (run (YFinance ''AAPL'' ''1mo'' (Some (YfFrame example_no_rows))) no_choice None
          example_session) = example_session \<and>
   validate_dataframe (Some example_no_rows)
     = (False, [StWarning ''No data available to display.'']) \<and>
   validate_dataframe (Some example_prices) = (True, [])"
proof -
  have e: "empty example_no_rows"
    by (simp add: empty_def example_no_rows_def)
  have n: "\<not> empty example_prices"
    by (simp add: empty_def example_prices_def)
  show ?thesis
    using empty_fetch_and_validation
            [of "''AAPL''" example_no_rows "''1mo''" example_session no_choice None
                "Some example_no_rows"]
          empty_fetch_and_validation
            [of "''AAPL''" example_no_rows "''1mo''" example_session no_choice None
                "Some example_prices"]
          e n
    by simp
qed

text \<open>
  What holds of the session on every path. Through any sequence of runs from a fresh
  session, the table and the source tag of the session are those of the last run that
  changed the session: the table is the one that run's source delivered and the tag is
  that source's kind. Every run either leaves the session as it was or assigns the
  delivered table and the tag of its source together. A failed load changes nothing, and
  neither does an empty load from the market-data source or from the API. So a table
  whose source is not the market-data source is always charted by the generic builder.
\<close>

theorem session_source_consistency:
  "df (replay xs init_session) = map_option snd (origin xs init_session None) \<and>
   data_source (replay xs init_session) = map_option fst (origin xs init_session None) \<and>
   (fst (run sb u px_raises s) = s \<or>
    (\<exists>d. delivered sb = Some d \<and> df (fst (run sb u px_raises s)) = Some d \<and>
         data_source (fst (run sb u px_raises s)) = Some (source_kind sb))) \<and>
   (ingest_failure sb \<noteq> None \<longrightarrow> fst (run sb u px_raises s) = s) \<and>
   (\<forall>d. delivered sb = Some d \<and> empty d \<and> source_kind sb \<noteq> ''CSV''
        \<longrightarrow> fst (run sb u px_raises s) = s) \<and>
   (\<forall>k d. origin xs init_session None = Some (k, d) \<and> k \<noteq> ''yFinance''
        \<longrightarrow> tab2 u px_raises (replay xs init_session) d = Inr (generic_chart u px_raises d))"
proof -
  have inv: "df (replay xs init_session) = map_option snd (origin xs init_session None) \<and>
             data_source (replay xs init_session) = map_option fst (origin xs init_session None)"
    by (rule origin_invariant) (simp_all add: init_session_def)
  have fail: "ingest_failure sb \<noteq> None \<longrightarrow> fst (run sb u px_raises s) = s"
    using failure_run_unchanged by blast
  have emp: "\<forall>d. delivered sb = Some d \<and> empty d \<and> source_kind sb \<noteq> ''CSV''
               \<longrightarrow> fst (run sb u px_raises s) = s"
    using empty_load_unchanged by blast
  have gen: "\<forall>k d. origin xs init_session None = Some (k, d) \<and> k \<noteq> ''yFinance''
        \<longrightarrow> tab2 u px_raises (replay xs init_session) d = Inr (generic_chart u px_raises d)"
  proof (intro allI impI)
    fix k d
    assume "origin xs init_session None = Some (k, d) \<and> k \<noteq> ''yFinance''"
    then have "data_source (replay xs init_session) \<noteq> Some ''yFinance''"
      using inv by simp
    then show "tab2 u px_raises (replay xs init_session) d = Inr (generic_chart u px_raises d)"
      by (simp add: tab2_def)
  qed
  show ?thesis
    using inv run_step [of sb u px_raises s] fail emp gen by blast
qed

lemma example_history_origin:
  "origin example_history init_session None = Some (''CSV'', example_numbers)"
  by (simp add: example_history_def fst_run sidebar_run_def yfinance_fetch_frame api_fetch_cases
      fetch_api_data_def csv_upload_def empty_def example_prices_def example_no_rows_def
      example_numbers_def init_session_def)

theorem session_source_consistency_witness:
  "origin example_history init_session None = Some (''CSV'', example_numbers) \<and>
   df (replay example_history init_session) = Some example_numbers \<and>
   data_source (replay example_history init_session) = Some ''CSV'' \<and>
   tab2 no_choice None (replay example_history init_session) example_numbers
     = Inr (generic_chart no_choice None example_numbers) \<and>
   ingest_failure (ApiLink ''https://api.example.com/data'' (Some Timeout)) \<noteq> None \<and>
   fst (run (ApiLink ''https://api.example.com/data'' (Some Timeout)) no_choice None example_session)
     = example_session \<and>
   delivered (YFinance ''MSFT'' ''1mo'' (Some (YfFrame example_no_rows))) = Some example_no_rows \<and>
   empty example_no_rows \<and>
   fst (run (YFinance ''MSFT'' ''1mo'' (Some (YfFrame example_no_rows))) no_choice None example_session)
     = example_session"
proof -
  have e: "empty example_no_rows"
    by (simp add: empty_def example_no_rows_def)
  show ?thesis
    using session_source_consistency
            [of example_history "ApiLink ''https://api.example.com/data'' (Some Timeout)"
                no_choice None example_session]
          session_source_consistency
            [of example_history "YFinance ''MSFT'' ''1mo'' (Some (YfFrame example_no_rows))"
                no_choice None example_session]
          example_history_origin e
    by simp
qed

text \<open>
  Claim C10. The claim says that an empty load changes neither the table nor the source
  tag of the session. The handlers of the market-data source and of the API refuse an
  empty table (lines 100 and 124); the CSV handler has no such test (lines 142 to 147).
  Evaluated at a CSV file that parses to a header and no rows, uploaded into a session
  that holds market data: the run replaces the table and the tag, while the same empty
  table from the market-data source leaves the session as it was.
\<close>

theorem empty_csv_load_replaces_session:
  "empty example_header_only \<and>
   df example_session = Some example_prices \<and>
   data_source example_session = Some ''yFinance'' \<and>
   df (fst (run (CsvUpload (Some (''empty.csv'', CsvFrame example_header_only)))
              no_choice None example_session)) = Some example_header_only \<and>
   data_source (fst (run (CsvUpload (Some (''empty.csv'', CsvFrame example_header_only)))
                       no_choice None example_session)) = Some ''CSV'' \<and>
   fst (run (YFinance ''AAPL'' ''1mo'' (Some (YfFrame example_header_only)))
          no_choice None example_session) = example_session"
  by (simp add: fst_run sidebar_run_def csv_upload_def yfinance_fetch_frame example_session_def
      example_header_only_def empty_def)

subsection \<open>The JSON adapter\<close>


















lemma scenario_scalar:
  "fetch_api_data (Json (PInt 42) other) =
     Inr (None, [StError ''API response format not supported''])"
  by (simp add: fetch_api_data_def)

text \<open>
  A column with a missing key is a float column: its integers are stored as floats.
\<close>

lemma missing_key_makes_floats:
  "fetch_api_data
     (Json (PList [PDict [(''b'', PInt 9007199254740993), (''a'', PInt 2)],
                   PDict [(''c'', PInt 3), (''a'', PInt 1)]]) other) =
     Inr (Some (DataFrame 2
                  [Column ''b'' Float64 [FloatOfInt 9007199254740993, NaN],
                   Column ''a'' Int64 [PInt 2, PInt 1],
                   Column ''c'' Float64 [NaN, FloatOfInt 3]]), [])"
  by (simp add: fetch_api_data_def pd_DataFrame_def unique_keys_def keys_def
     dict_column_def infer_dtype_def int_conflict_def Let_def)




subsection \<open>The export\<close>

lemma getitem_distinct:
  assumes "distinct (map col_name cs)" and "c \<in> set cs"
  shows "filter (\<lambda>x. col_name x = col_name c) cs = [c]"
  using assms
proof (induction cs)
  case Nil
  then show ?case by simp
next
  case (Cons a cs)
  show ?case
  proof (cases "a = c")
    case True
    then have "\<forall>x \<in> set cs. col_name x \<noteq> col_name c"
      using Cons.prems(1) by (metis distinct.simps(2) image_eqI list.simps(9) set_map)
    then have "filter (\<lambda>x. col_name x = col_name c) cs = []" by (simp add: filter_empty_conv)
    then show ?thesis using True by simp
  next
    case False
    then have "c \<in> set cs" using Cons.prems(2) by simp
    moreover have "col_name a \<noteq> col_name c"
      using Cons.prems(1) \<open>c \<in> set cs\<close>
      by (metis distinct.simps(2) image_eqI list.simps(9) set_map)
    ultimately show ?thesis using Cons by simp
  qed
qed

lemma getitems_sub:
  assumes "distinct (map col_name (cols d))" and "set cs \<subseteq> set (cols d)"
  shows "getitems d (map col_name cs) = Inr cs"
  using assms(2)
proof (induction cs)
  case Nil
  then show ?case by simp
next
  case (Cons c cs)
  then have "getitem d (col_name c) = Inr c"
    using getitem_distinct [OF assms(1), of c] by (simp add: getitem_def)
  then show ?case using Cons by simp
qed

lemma getitems_all:
  assumes "distinct (columns d)"
  shows "getitems d (columns d) = Inr (cols d)"
  using getitems_sub [of d "cols d"] assms by (simp add: columns_def)

lemma selected_default:
  "length (columns d) \<le> 10 \<Longrightarrow> selected_columns no_choice d = columns d"
  by (simp add: selected_columns_def multiselect_def no_choice_def)

text \<open>
  The script's part in the CSV round trip of claim C8. The table that the download
  button serialises is the session's table restricted to the displayed columns, in the
  order displayed and with all its rows; the display defaults to the first ten columns.
  So a table of eleven columns is exported with ten, and a table with unique column names
  is exported whole when all its columns are displayed in their order, which is the
  default for at most ten columns. Parsing and serialising CSV text are pandas' own
  \<^verbatim>\<open>read_csv\<close> and \<^verbatim>\<open>to_csv\<close> and are not modelled.
\<close>

lemma export_is_displayed_columns:
  assumes "selected_columns u d \<noteq> []"
    and "getitems d (selected_columns u d) = Inr cs"
    and "dataframe_raises u = None"
  shows "tab1 u d =
           Inr [StDataframe (selected_columns u d), DownloadButton (DataFrame (nrows d) cs)]"
  using assms by (simp add: tab1_def)

lemma export_of_all_columns:
  assumes "distinct (columns d)" and "columns d \<noteq> []"
    and "selected_columns u d = columns d" and "dataframe_raises u = None"
  shows "tab1 u d = Inr [StDataframe (columns d), DownloadButton d]"
  using assms getitems_all [OF assms(1)] by (simp add: tab1_def)

lemma export_of_eleven_columns:
  "length (columns example_wide) = 11 \<and>
   tab1 no_choice example_wide =
     Inr [StDataframe [''c0'', ''c1'', ''c2'', ''c3'', ''c4'', ''c5'', ''c6'', ''c7'', ''c8'', ''c9''],
          DownloadButton example_first_ten]"
  by (simp add: tab1_def selected_columns_def multiselect_def no_choice_def columns_def
      example_wide_def example_first_ten_def getitem_def)

end
